theory Spec2Isabelle
  imports Main
begin

section \<open>Values shared by the two components\<close>

text \<open>
  Both components of \<^verbatim>\<open>OTPVerification.jsx\<close> (the reset-flow component
  \<^verbatim>\<open>OTPVerification\<close> and the account page \<^verbatim>\<open>Settings\<close>) are React function
  components: a handful of \<^verbatim>\<open>useState\<close> cells, handlers that read the cells of the
  current render, call a function of \<^verbatim>\<open>services/authService\<close> and write cells back.
  A JavaScript string is modelled as a \<^typ>\<open>string\<close>, one \<^typ>\<open>char\<close> per code unit
  (code units below 256); \<^verbatim>\<open>length\<close>, \<^verbatim>\<open>===\<close> and the regular expressions of the
  source all work code unit by code unit. A cell holding \<^verbatim>\<open>null\<close> or a string is a
  \<^typ>\<open>string option\<close>.
\<close>

text \<open>
  What a \<^verbatim>\<open>catch\<close> block reads from a thrown value that is neither \<^verbatim>\<open>null\<close> nor
  undefined: \<^verbatim>\<open>err.response?.data?.message\<close> and \<^verbatim>\<open>error.message\<close>, each of which may
  be undefined (as both are for a string, a number or an object without them); a
  message that is present is taken to be a string.
\<close>

record js_error =
  response_message :: "string option"
  error_message :: "string option"

text \<open>
  The value a promise is rejected with. Every \<^verbatim>\<open>catch\<close> block of the source starts by
  reading \<^verbatim>\<open>err.response\<close> with no guard on \<^verbatim>\<open>err\<close> itself, so on \<^verbatim>\<open>null\<close> or undefined
  (\<open>Nullish\<close>) that read throws a TypeError and the rest of the block is skipped.
\<close>

datatype rejection = Nullish | ErrorValue js_error

text \<open>The settled promise of a service call: fulfilled with a value or rejected.\<close>

datatype 'r outcome = Resolved 'r | Rejected rejection

text \<open>The three functions of the authentication service, with the arguments passed.\<close>

datatype call =
    VerifyOTP string string
  | ResetPassword "string option" string
  | ChangePassword string string

text \<open>
  What a handler does to the world outside its component: a request to the service,
  \<^verbatim>\<open>setTimeout(onBack, ms)\<close>, the call of the \<^verbatim>\<open>onBack\<close> property, and a TypeError
  thrown inside a \<^verbatim>\<open>catch\<close> block, which leaves the handler after its \<^verbatim>\<open>finally\<close> block
  (the promise of the handler is rejected and nothing handles it).
\<close>

datatype effect = Request call | SetTimeoutOnBack nat | OnBack | Uncaught

definition requests :: "effect list \<Rightarrow> call list" where
  "requests es = concat (map (\<lambda>e. case e of Request c \<Rightarrow> [c] | _ \<Rightarrow> []) es)"

text \<open>JavaScript truthiness of a cell that is \<^verbatim>\<open>null\<close>, undefined or a string.\<close>

fun truthy :: "string option \<Rightarrow> bool" where
  "truthy None = False"
| "truthy (Some s) = (s \<noteq> [])"

text \<open>\<^verbatim>\<open>m || d\<close> for such a value \<open>m\<close> and a string \<open>d\<close>.\<close>

definition or_else :: "string option \<Rightarrow> string \<Rightarrow> string" where
  "or_else m d = (case m of None \<Rightarrow> d | Some s \<Rightarrow> if s = [] then d else s)"

section \<open>The account page: password rules and \<^verbatim>\<open>handlePasswordUpdate\<close>\<close>

record passwordData =
  currentPassword :: string
  newPassword :: string
  confirmPassword :: string

text \<open>The object returned by \<^verbatim>\<open>validatePassword\<close>, as far as the handler reads it.\<close>

record validation =
  isValid :: bool
  message :: string

record settings_state =
  passwordData :: passwordData
  passwordError :: string
  passwordSuccess :: string
  isUpdatingPassword :: bool

definition clearedPasswordData :: passwordData where
  "clearedPasswordData = \<lparr>currentPassword = '''', newPassword = '''', confirmPassword = ''''\<rparr>"

subsection \<open>The requirement checklist of \<^verbatim>\<open>renderSecuritySection\<close>\<close>

text \<open>A regular-expression class \<^verbatim>\<open>[lo-hi]\<close>: the code units from \<open>lo\<close> to \<open>hi\<close>.\<close>

definition in_range :: "char \<Rightarrow> char \<Rightarrow> char \<Rightarrow> bool" where
  "in_range lo hi c = ((of_char lo :: nat) \<le> of_char c \<and> (of_char c :: nat) \<le> of_char hi)"

text \<open>
  The class of the last rule, \<^verbatim>\<open>[!@#$%^&*()_+\-=\[\]{};':"\\|,.<>\/?]\<close>, character by
  character (0x27 is the apostrophe, 0x22 the double quote, 0x5C the backslash).
\<close>

definition specialCharacters :: string where
  "specialCharacters =
     ''!@#$%^&*()_+-=[]{};'' @ [CHR 0x27] @ '':'' @ [CHR 0x22, CHR 0x5C] @ ''|,.<>/?''"

definition hasMinLength :: "string \<Rightarrow> bool" where
  "hasMinLength p = (8 \<le> length p)"

definition hasLowercase :: "string \<Rightarrow> bool" where
  "hasLowercase p = list_ex (in_range CHR ''a'' CHR ''z'') p"

definition hasUppercase :: "string \<Rightarrow> bool" where
  "hasUppercase p = list_ex (in_range CHR ''A'' CHR ''Z'') p"

definition hasNumber :: "string \<Rightarrow> bool" where
  "hasNumber p = list_ex (in_range CHR ''0'' CHR ''9'') p"

definition hasSpecial :: "string \<Rightarrow> bool" where
  "hasSpecial p = list_ex (\<lambda>c. c \<in> set specialCharacters) p"

text \<open>
  The \<^verbatim>\<open>$valid\<close> properties of the five \<^verbatim>\<open>RequirementItem\<close>s, in the order rendered,
  computed from \<^verbatim>\<open>passwordData.newPassword\<close>.
\<close>

definition requirements :: "string \<Rightarrow> bool list" where
  "requirements p = [hasMinLength p, hasLowercase p, hasUppercase p, hasNumber p, hasSpecial p]"

subsection \<open>The validator of \<^verbatim>\<open>utils/validators\<close>\<close>

text \<open>
  Modelled from the spec: \<^verbatim>\<open>validatePassword\<close> is imported from \<^verbatim>\<open>utils/validators\<close>,
  a file that is not among the sources. The specification (section 4.2) describes it as
  a pure function \<^verbatim>\<open>validate(candidate) -> {valid: bool, failedRule?: RuleId}\<close> with
  five rules, ``evaluated independently (all must pass for valid=true)''. The types
  below are the rule identifiers and the result of that description.
\<close>

datatype RuleId = MinLength | Lowercase | Uppercase | Digit | Special

record verdict =
  valid :: bool
  failedRule :: "RuleId option"

text \<open>
  Modelled from the spec: the five rules of section 4.2, in its words: length at least
  8, at least one lowercase a-z, at least one uppercase A-Z, at least one digit 0-9, at
  least one character from a fixed special-character set. The specification does not
  list the special characters; they are those of the checklist above.
\<close>

fun rule_holds :: "RuleId \<Rightarrow> string \<Rightarrow> bool" where
  "rule_holds MinLength p = (length p \<ge> 8)"
| "rule_holds Lowercase p = list_ex (\<lambda>c. c \<in> set ''abcdefghijklmnopqrstuvwxyz'') p"
| "rule_holds Uppercase p = list_ex (\<lambda>c. c \<in> set ''ABCDEFGHIJKLMNOPQRSTUVWXYZ'') p"
| "rule_holds Digit p = list_ex (\<lambda>c. c \<in> set ''0123456789'') p"
| "rule_holds Special p = list_ex (\<lambda>c. c \<in> set specialCharacters) p"

text \<open>Modelled from the spec: the rules in the order section 4.2 numbers them.\<close>

definition rules :: "RuleId list" where
  "rules = [MinLength, Lowercase, Uppercase, Digit, Special]"

text \<open>
  Modelled from the spec: the verdict of section 4.2. All rules must hold for
  \<open>valid\<close>; of several failed rules the first in the order above is reported.
\<close>

definition validate :: "string \<Rightarrow> verdict" where
  "validate candidate =
     (case filter (\<lambda>r. \<not> rule_holds r candidate) rules of
        [] \<Rightarrow> \<lparr>valid = True, failedRule = None\<rparr>
      | r # _ \<Rightarrow> \<lparr>valid = False, failedRule = Some r\<rparr>)"

subsection \<open>\<^verbatim>\<open>handlePasswordUpdate\<close>\<close>

text \<open>
  The handler, run from the submit event to the end of its \<^verbatim>\<open>finally\<close> block with
  no other event in between. \<open>validatePassword\<close> and \<open>changePassword\<close> are the two
  imported functions; the result is the state after the handler and the effects it had.
  When the request is rejected with \<^verbatim>\<open>null\<close> or undefined, the argument of
  \<^verbatim>\<open>setPasswordError\<close> in the \<^verbatim>\<open>catch\<close> block throws, so neither that setter nor
  \<^verbatim>\<open>setPasswordData\<close> runs; \<^verbatim>\<open>finally\<close> still does.
\<close>

definition handlePasswordUpdate ::
  "(string \<Rightarrow> validation) \<Rightarrow> (string \<Rightarrow> string \<Rightarrow> 'r outcome) \<Rightarrow>
     settings_state \<Rightarrow> settings_state \<times> effect list" where
  "handlePasswordUpdate validatePassword changePassword s =
     (let pd = passwordData s in
      if currentPassword pd = [] then
        (s\<lparr>passwordError := ''Current password is required''\<rparr>, [])
      else
        let passwordValidation = validatePassword (passwordData.newPassword pd) in
        if \<not> isValid passwordValidation then
          (s\<lparr>passwordError := validation.message passwordValidation\<rparr>, [])
        else if passwordData.newPassword pd \<noteq> passwordData.confirmPassword pd then
          (s\<lparr>passwordError := ''New passwords do not match''\<rparr>, [])
        else if currentPassword pd = passwordData.newPassword pd then
          (s\<lparr>passwordError := ''New password must be different from current password''\<rparr>, [])
        else
          let s1 = s\<lparr>isUpdatingPassword := True, passwordError := ''''\<rparr>;
              req = Request (ChangePassword (currentPassword pd) (passwordData.newPassword pd))
          in case changePassword (currentPassword pd) (passwordData.newPassword pd) of
               Resolved _ \<Rightarrow>
                 (s1\<lparr>passwordSuccess := ''Password updated successfully!'',
                     passwordData := clearedPasswordData,
                     isUpdatingPassword := False\<rparr>, [req])
             | Rejected (ErrorValue err) \<Rightarrow>
                 (s1\<lparr>passwordError :=
                       or_else (response_message err)
                         (or_else (error_message err) ''Failed to update password''),
                     passwordData := clearedPasswordData,
                     isUpdatingPassword := False\<rparr>, [req])
             | Rejected Nullish \<Rightarrow>
                 (s1\<lparr>isUpdatingPassword := False\<rparr>, [req, Uncaught]))"

section \<open>The reset flow: the component \<^verbatim>\<open>OTPVerification\<close>\<close>

text \<open>The seven \<^verbatim>\<open>useState\<close> cells of the component.\<close>

record otp_state =
  otp :: string
  newPassword :: string
  confirmPassword :: string
  error :: "string option"
  message :: "string option"
  isSubmitting :: bool
  verificationToken :: "string option"

text \<open>The cells of a freshly mounted component.\<close>

definition initial :: otp_state where
  "initial = \<lparr>otp = '''', newPassword = '''', confirmPassword = '''', error = None,
     message = None, isSubmitting = False, verificationToken = None\<rparr>"

subsection \<open>The handlers\<close>

text \<open>
  An \<^verbatim>\<open>async\<close> handler is cut at its \<^verbatim>\<open>await\<close>: the part run at the submit event,
  which ends by issuing the request, and the part run when the promise settles
  (\<^verbatim>\<open>try\<close> continuation or \<^verbatim>\<open>catch\<close>, then \<^verbatim>\<open>finally\<close>). Each setter writes one cell,
  so the second part updates the cells as they are when the promise settles.
\<close>

definition handleVerifyOTP_start :: "string \<Rightarrow> otp_state \<Rightarrow> otp_state \<times> call" where
  "handleVerifyOTP_start resetToken s =
     (s\<lparr>isSubmitting := True\<rparr>, VerifyOTP resetToken (otp s))"

definition handleVerifyOTP_settle ::
  "string \<Rightarrow> 'r outcome \<Rightarrow> otp_state \<Rightarrow> otp_state \<times> effect list" where
  "handleVerifyOTP_settle resetToken res s =
     (case res of
        Resolved verifyResponse \<Rightarrow>
          (s\<lparr>verificationToken := Some resetToken, error := None, isSubmitting := False\<rparr>, [])
      | Rejected (ErrorValue err) \<Rightarrow>
          (s\<lparr>error := Some (or_else (response_message err) ''OTP verification failed''),
             isSubmitting := False\<rparr>, [])
      | Rejected Nullish \<Rightarrow>
          (s\<lparr>isSubmitting := False\<rparr>, [Uncaught]))"

text \<open>
  \<^verbatim>\<open>handlePasswordReset\<close> returns before any request when the two entries differ; its
  first part yields the request only when it gets that far.
\<close>

definition handlePasswordReset_start :: "otp_state \<Rightarrow> otp_state \<times> call option" where
  "handlePasswordReset_start s =
     (if newPassword s \<noteq> confirmPassword s then
        (s\<lparr>error := Some ''Passwords do not match''\<rparr>, None)
      else
        (s\<lparr>isSubmitting := True\<rparr>, Some (ResetPassword (verificationToken s) (newPassword s))))"

definition handlePasswordReset_settle ::
  "'r outcome \<Rightarrow> otp_state \<Rightarrow> otp_state \<times> effect list" where
  "handlePasswordReset_settle res s =
     (case res of
        Resolved _ \<Rightarrow>
          (s\<lparr>message :=
               Some ''Password reset successfully! You can now login with your new password.'',
             isSubmitting := False\<rparr>, [SetTimeoutOnBack 3000])
      | Rejected (ErrorValue err) \<Rightarrow>
          (s\<lparr>error := Some (or_else (response_message err) ''Password reset failed''),
             isSubmitting := False\<rparr>, [])
      | Rejected Nullish \<Rightarrow>
          (s\<lparr>isSubmitting := False\<rparr>, [Uncaught]))"

text \<open>
  The handlers run from the submit event to the end of \<^verbatim>\<open>finally\<close> with no other event
  in between; \<open>verifyOTP\<close> and \<open>resetPassword\<close> are the functions of the service and
  \<open>resetToken\<close> is the property of the component.
\<close>

definition handleVerifyOTP ::
  "(string \<Rightarrow> string \<Rightarrow> 'r outcome) \<Rightarrow> string \<Rightarrow> otp_state \<Rightarrow> otp_state \<times> effect list" where
  "handleVerifyOTP verifyOTP resetToken s =
     (case handleVerifyOTP_start resetToken s of
        (s1, c) \<Rightarrow>
          (case handleVerifyOTP_settle resetToken (verifyOTP resetToken (otp s)) s1 of
             (s2, es) \<Rightarrow> (s2, Request c # es)))"

definition handlePasswordReset ::
  "(string option \<Rightarrow> string \<Rightarrow> 'r outcome) \<Rightarrow> otp_state \<Rightarrow> otp_state \<times> effect list" where
  "handlePasswordReset resetPassword s =
     (case handlePasswordReset_start s of
        (s1, None) \<Rightarrow> (s1, [])
      | (s1, Some c) \<Rightarrow>
          (case handlePasswordReset_settle (resetPassword (verificationToken s) (newPassword s)) s1 of
             (s2, es) \<Rightarrow> (s2, Request c # es)))"

subsection \<open>What is rendered\<close>

datatype form = OTPForm | PasswordForm

record view =
  errorAlert :: "string option"
  successAlert :: "string option"
  shownForm :: form
  submitDisabled :: bool
  submitLabel :: string

text \<open>
  The returned JSX, as far as it depends on the cells: the two alerts, which of the two
  forms is mounted (\<^verbatim>\<open>!verificationToken ? ... : ...\<close>), and the submit button of that
  form with its \<^verbatim>\<open>disabled\<close> property and its label.
\<close>

definition render :: "otp_state \<Rightarrow> view" where
  "render s =
     \<lparr>errorAlert = (if truthy (error s) then error s else None),
      successAlert = (if truthy (message s) then message s else None),
      shownForm = (if \<not> truthy (verificationToken s) then OTPForm else PasswordForm),
      submitDisabled = isSubmitting s,
      submitLabel =
        (if \<not> truthy (verificationToken s)
         then (if isSubmitting s then ''Verifying...'' else ''Verify OTP'')
         else (if isSubmitting s then ''Resetting...'' else ''Reset Password''))\<rparr>"

subsection \<open>The component as a transition system\<close>

text \<open>
  A mounted component together with the requests whose promises have not settled yet
  and the effects so far.
\<close>

record sys =
  cells :: otp_state
  inflight :: "call list"
  effects :: "effect list"

text \<open>
  The events the component reacts to: typing into one of the three inputs, activating
  the submit button of the mounted form, a click on the back button, and the settling
  of the \<open>i\<close>-th outstanding request.
\<close>

datatype 'r event =
    ChangeOtp string
  | ChangeNewPassword string
  | ChangeConfirmPassword string
  | Submit
  | Back
  | Settle nat "'r outcome"

definition boot :: sys where
  "boot = \<lparr>cells = initial, inflight = [], effects = []\<rparr>"

text \<open>
  Events are handled one after the other, each on the render of the cells the previous
  one left. A disabled submit button does not submit its form, so \<open>Submit\<close> does nothing
  while \<^verbatim>\<open>disabled={isSubmitting}\<close> holds; otherwise it runs the first part of the handler
  of the mounted form. The \<^verbatim>\<open>required\<close> attributes of the inputs would only suppress
  further submit events and are left out. The back button calls \<^verbatim>\<open>onBack\<close> and writes
  no cell (the timer set after a successful reset calls the same \<^verbatim>\<open>onBack\<close>). \<open>Settle\<close>
  runs the second part of the handler that issued the request; the component issues no
  \<^verbatim>\<open>changePassword\<close> request, so settling one does nothing.
\<close>

fun fire :: "string \<Rightarrow> 'r event \<Rightarrow> sys \<Rightarrow> sys" where
  "fire resetToken (ChangeOtp v) \<sigma> = \<sigma>\<lparr>cells := (cells \<sigma>)\<lparr>otp := v\<rparr>\<rparr>"
| "fire resetToken (ChangeNewPassword v) \<sigma> = \<sigma>\<lparr>cells := (cells \<sigma>)\<lparr>newPassword := v\<rparr>\<rparr>"
| "fire resetToken (ChangeConfirmPassword v) \<sigma> =
     \<sigma>\<lparr>cells := (cells \<sigma>)\<lparr>confirmPassword := v\<rparr>\<rparr>"
| "fire resetToken Submit \<sigma> =
     (if submitDisabled (render (cells \<sigma>)) then \<sigma>
      else
        (case shownForm (render (cells \<sigma>)) of
           OTPForm \<Rightarrow>
             (case handleVerifyOTP_start resetToken (cells \<sigma>) of
                (s1, c) \<Rightarrow>
                  \<lparr>cells = s1, inflight = inflight \<sigma> @ [c], effects = effects \<sigma> @ [Request c]\<rparr>)
         | PasswordForm \<Rightarrow>
             (case handlePasswordReset_start (cells \<sigma>) of
                (s1, None) \<Rightarrow> \<sigma>\<lparr>cells := s1\<rparr>
              | (s1, Some c) \<Rightarrow>
                  \<lparr>cells = s1, inflight = inflight \<sigma> @ [c],
                   effects = effects \<sigma> @ [Request c]\<rparr>)))"
| "fire resetToken Back \<sigma> = \<sigma>\<lparr>effects := effects \<sigma> @ [OnBack]\<rparr>"
| "fire resetToken (Settle i res) \<sigma> =
     (if i < length (inflight \<sigma>) then
        (let rest = take i (inflight \<sigma>) @ drop (Suc i) (inflight \<sigma>) in
         case inflight \<sigma> ! i of
           VerifyOTP _ _ \<Rightarrow>
             (case handleVerifyOTP_settle resetToken res (cells \<sigma>) of
                (s2, es) \<Rightarrow> \<lparr>cells = s2, inflight = rest, effects = effects \<sigma> @ es\<rparr>)
         | ResetPassword _ _ \<Rightarrow>
             (case handlePasswordReset_settle res (cells \<sigma>) of
                (s2, es) \<Rightarrow> \<lparr>cells = s2, inflight = rest, effects = effects \<sigma> @ es\<rparr>)
         | ChangePassword _ _ \<Rightarrow> \<sigma>)
      else \<sigma>)"

definition run :: "string \<Rightarrow> 'r event list \<Rightarrow> sys \<Rightarrow> sys" where
  "run resetToken evs \<sigma> = foldl (\<lambda>\<sigma>' e. fire resetToken e \<sigma>') \<sigma> evs"

text \<open>
  One request at a time: at most one promise is unsettled, and the \<^verbatim>\<open>isSubmitting\<close>
  cell is set exactly while there is one.
\<close>

definition single_flight :: "sys \<Rightarrow> bool" where
  "single_flight \<sigma> = (length (inflight \<sigma>) \<le> 1 \<and> isSubmitting (cells \<sigma>) = (inflight \<sigma> \<noteq> []))"



section \<open>Services and inputs of the examples\<close>

text \<open>A service function that fulfils every request with \<open>r\<close>, and one that rejects it.\<close>

definition accepting :: "'r \<Rightarrow> 'a \<Rightarrow> 'b \<Rightarrow> 'r outcome" where
  "accepting r a b = Resolved r"

definition rejecting :: "rejection \<Rightarrow> 'a \<Rightarrow> 'b \<Rightarrow> 'r outcome" where
  "rejecting why a b = Rejected why"

text \<open>
  Modelled from the spec: \<^verbatim>\<open>validatePassword\<close> of \<^verbatim>\<open>utils/validators\<close> (not among the
  sources) in the shape \<^verbatim>\<open>handlePasswordUpdate\<close> reads, with the verdict of \<open>validate\<close>.
  Neither the specification nor the sources give the text of \<^verbatim>\<open>message\<close>; a fixed
  text stands for it.
\<close>

definition validatePassword :: "string \<Rightarrow> validation" where
  "validatePassword p =
     \<lparr>isValid = valid (validate p),
      message = (if valid (validate p) then '''' else ''Password does not meet requirements'')\<rparr>"

definition enteredPasswords :: "string \<Rightarrow> string \<Rightarrow> string \<Rightarrow> settings_state" where
  "enteredPasswords cur new conf =
     \<lparr>passwordData = \<lparr>currentPassword = cur, newPassword = new, confirmPassword = conf\<rparr>,
      passwordError = '''', passwordSuccess = '''', isUpdatingPassword = False\<rparr>"

definition wrongCurrent :: js_error where
  "wrongCurrent = \<lparr>response_message = Some ''Current password is incorrect'',
     error_message = Some ''Request failed with status code 400''\<rparr>"

text \<open>The reset component after a successful verification of the code 123456.\<close>

definition verified :: otp_state where
  "verified = initial\<lparr>otp := ''123456'', verificationToken := Some ''reset-token''\<rparr>"

text \<open>The same component with two different, and with two equal, password entries.\<close>

definition mismatched :: otp_state where
  "mismatched = verified\<lparr>newPassword := ''Abcdef1!'', confirmPassword := ''Abcdef1?''\<rparr>"

definition matched :: otp_state where
  "matched = verified\<lparr>newPassword := ''Abcdef1!'', confirmPassword := ''Abcdef1!''\<rparr>"

text \<open>A password that fails four of the five rules, entered twice.\<close>

definition weak :: otp_state where
  "weak = verified\<lparr>newPassword := ''a'', confirmPassword := ''a''\<rparr>"

text \<open>The user types a code and activates the submit button twice in a row.\<close>

definition doubleSubmit :: "unit event list" where
  "doubleSubmit = [ChangeOtp ''123456'', Submit, Submit]"




section \<open>Basic facts\<close>

lemma requests_Nil: "requests [] = []"
  by (simp add: requests_def)

lemma requests_Cons:
  "requests (e # es) = (case e of Request c \<Rightarrow> [c] | _ \<Rightarrow> []) @ requests es"
  by (simp add: requests_def)


subsection \<open>Character classes as sets of characters\<close>

text \<open>A class \<^verbatim>\<open>[lo-hi]\<close> holds exactly the characters with the codes from \<open>lo\<close> to \<open>hi\<close>.\<close>

lemma in_range_upt:
  "in_range lo hi c = (c \<in> set (map char_of [of_char lo ..< Suc (of_char hi :: nat)]))"
proof
  assume "in_range lo hi c"
  then have "(of_char c :: nat) \<in> set [of_char lo ..< Suc (of_char hi)]"
    unfolding in_range_def by (simp only: set_upt atLeastLessThan_iff less_Suc_eq_le)
  then have "char_of (of_char c :: nat) \<in> set (map char_of [of_char lo ..< Suc (of_char hi :: nat)])"
    by (simp only: set_map image_eqI)
  then show "c \<in> set (map char_of [of_char lo ..< Suc (of_char hi :: nat)])"
    by simp
next
  assume "c \<in> set (map char_of [of_char lo ..< Suc (of_char hi :: nat)])"
  then obtain n :: nat where n: "of_char lo \<le> n" "n \<le> of_char hi" and c: "c = char_of n"
    by auto
  have "n < 256"
    using n(2) nat_of_char_less_256 [of hi] by (rule le_less_trans)
  then have "n mod 256 = n" by simp
  then have "(of_char c :: nat) = n"
    by (simp add: c)
  with n show "in_range lo hi c"
    by (simp add: in_range_def)
qed

lemma lowercase_class:
  "map char_of [of_char CHR ''a'' ..< Suc (of_char CHR ''z'' :: nat)] = ''abcdefghijklmnopqrstuvwxyz''"
  by code_simp

lemma uppercase_class:
  "map char_of [of_char CHR ''A'' ..< Suc (of_char CHR ''Z'' :: nat)] = ''ABCDEFGHIJKLMNOPQRSTUVWXYZ''"
  by code_simp

lemma digit_class:
  "map char_of [of_char CHR ''0'' ..< Suc (of_char CHR ''9'' :: nat)] = ''0123456789''"
  by code_simp

lemma list_ex_member: "list_ex (\<lambda>c. c \<in> set cs) p = (set p \<inter> set cs \<noteq> {})"
  by (auto simp add: list_ex_iff)

lemma list_ex_in_range:
  "list_ex (in_range lo hi) p =
     (set p \<inter> set (map char_of [of_char lo ..< Suc (of_char hi :: nat)]) \<noteq> {})"
proof -
  have "in_range lo hi = (\<lambda>c. c \<in> set (map char_of [of_char lo ..< Suc (of_char hi :: nat)]))"
    by (rule ext) (rule in_range_upt)
  then show ?thesis
    by (auto simp only: list_ex_iff)
qed

lemma requirements_sets:
  "requirements p =
     [8 \<le> length p,
      set p \<inter> set ''abcdefghijklmnopqrstuvwxyz'' \<noteq> {},
      set p \<inter> set ''ABCDEFGHIJKLMNOPQRSTUVWXYZ'' \<noteq> {},
      set p \<inter> set ''0123456789'' \<noteq> {},
      set p \<inter> set specialCharacters \<noteq> {}]"
  by (simp only: requirements_def hasMinLength_def hasLowercase_def hasUppercase_def
      hasNumber_def hasSpecial_def list_ex_in_range list_ex_member
      lowercase_class uppercase_class digit_class)

subsection \<open>The verdict of the validator\<close>

lemma valid_validate: "valid (validate p) = (\<forall>r \<in> set rules. rule_holds r p)"
proof (cases "filter (\<lambda>r. \<not> rule_holds r p) rules")
  case Nil
  then have "\<forall>r \<in> set rules. rule_holds r p"
    by (simp only: filter_empty_conv) simp
  with Nil show ?thesis
    by (simp add: validate_def)
next
  case (Cons r rs)
  then have "r \<in> set (filter (\<lambda>r. \<not> rule_holds r p) rules)"
    by simp
  then have "\<exists>r \<in> set rules. \<not> rule_holds r p"
    by auto
  with Cons show ?thesis
    by (simp add: validate_def)
qed

lemma valid_sets:
  "valid (validate p) =
     (8 \<le> length p \<and>
      set p \<inter> set ''abcdefghijklmnopqrstuvwxyz'' \<noteq> {} \<and>
      set p \<inter> set ''ABCDEFGHIJKLMNOPQRSTUVWXYZ'' \<noteq> {} \<and>
      set p \<inter> set ''0123456789'' \<noteq> {} \<and>
      set p \<inter> set specialCharacters \<noteq> {})"
proof -
  have "valid (validate p) =
     (rule_holds MinLength p \<and> rule_holds Lowercase p \<and> rule_holds Uppercase p \<and>
      rule_holds Digit p \<and> rule_holds Special p)"
    unfolding valid_validate by (simp add: rules_def del: rule_holds.simps)
  then show ?thesis
    by (simp only: rule_holds.simps list_ex_member)
qed

lemma valid_example: "validatePassword ''Abcdef1!'' = \<lparr>isValid = True, message = ''''\<rparr>"
  by code_simp

lemma invalid_example: "isValid (validatePassword ''abc'') = False"
  by code_simp

lemma longenough: "requirements ''longenough1A!'' = [True, True, True, True, True]"
  by code_simp

lemma requirements_a: "requirements ''a'' = [False, True, False, False, False]"
  by code_simp

subsection \<open>The handlers of the reset flow\<close>

lemma handleVerifyOTP_resolved:
  "verifyOTP resetToken (otp s) = Resolved r \<Longrightarrow>
   handleVerifyOTP verifyOTP resetToken s =
     (s\<lparr>isSubmitting := False, verificationToken := Some resetToken, error := None\<rparr>,
      [Request (VerifyOTP resetToken (otp s))])"
  by (simp add: handleVerifyOTP_def handleVerifyOTP_start_def handleVerifyOTP_settle_def)

lemma handleVerifyOTP_inputs:
  "otp (fst (handleVerifyOTP verifyOTP resetToken s)) = otp s \<and>
   newPassword (fst (handleVerifyOTP verifyOTP resetToken s)) = newPassword s \<and>
   confirmPassword (fst (handleVerifyOTP verifyOTP resetToken s)) = confirmPassword s"
  by (simp add: handleVerifyOTP_def handleVerifyOTP_start_def
      handleVerifyOTP_settle_def split: outcome.split rejection.split)

lemma handlePasswordReset_mismatch:
  "newPassword s \<noteq> confirmPassword s \<Longrightarrow>
   handlePasswordReset resetPassword s = (s\<lparr>error := Some ''Passwords do not match''\<rparr>, [])"
  by (simp add: handlePasswordReset_def handlePasswordReset_start_def)

lemma handlePasswordReset_match:
  "newPassword s = confirmPassword s \<Longrightarrow>
   requests (snd (handlePasswordReset resetPassword s)) =
     [ResetPassword (verificationToken s) (newPassword s)]"
  by (simp add: handlePasswordReset_def handlePasswordReset_start_def
      handlePasswordReset_settle_def requests_Cons requests_Nil
      split: outcome.split rejection.split)

lemma handlePasswordReset_inputs:
  "otp (fst (handlePasswordReset resetPassword s)) = otp s \<and>
   newPassword (fst (handlePasswordReset resetPassword s)) = newPassword s \<and>
   confirmPassword (fst (handlePasswordReset resetPassword s)) = confirmPassword s"
  by (simp add: handlePasswordReset_def handlePasswordReset_start_def
      handlePasswordReset_settle_def split: outcome.split rejection.split)

subsection \<open>\<^verbatim>\<open>handlePasswordUpdate\<close>\<close>

lemma handlePasswordUpdate_local:
  "currentPassword (passwordData t) = [] \<or>
   \<not> isValid (validatePassword' (passwordData.newPassword (passwordData t))) \<or>
   passwordData.newPassword (passwordData t) \<noteq> passwordData.confirmPassword (passwordData t) \<or>
   currentPassword (passwordData t) = passwordData.newPassword (passwordData t) \<Longrightarrow>
   snd (handlePasswordUpdate validatePassword' changePassword t) = [] \<and>
   passwordData (fst (handlePasswordUpdate validatePassword' changePassword t)) = passwordData t"
  by (auto simp add: handlePasswordUpdate_def Let_def)

lemma handlePasswordUpdate_settled:
  "Request (ChangePassword cur new) \<in>
     set (snd (handlePasswordUpdate validatePassword' changePassword t)) \<Longrightarrow>
   changePassword cur new \<noteq> Rejected Nullish \<Longrightarrow>
   passwordData (fst (handlePasswordUpdate validatePassword' changePassword t)) = clearedPasswordData"
  by (auto simp add: handlePasswordUpdate_def Let_def
      split: if_splits outcome.splits rejection.splits)

section \<open>The stored verification token\<close>

text \<open>
  Claim C1 as stated fails: the token stored after a successful \<^verbatim>\<open>handleVerifyOTP\<close> is
  not the value the service returned. With a service that answers \<open>server-token\<close> and
  the property \<open>reset-token\<close>, the cell holds \<open>reset-token\<close>.
\<close>

theorem stored_token_not_returned_token:
  "verificationToken (fst (handleVerifyOTP (accepting ''server-token'') ''reset-token''
      (initial\<lparr>otp := ''123456''\<rparr>))) = Some ''reset-token'' \<and>
   verificationToken (fst (handleVerifyOTP (accepting ''server-token'') ''reset-token''
      (initial\<lparr>otp := ''123456''\<rparr>))) \<noteq> Some ''server-token''"
  by (simp add: handleVerifyOTP_resolved [where r = "''server-token''"] accepting_def)

text \<open>
  Claim C1, amended: after a successful \<^verbatim>\<open>handleVerifyOTP\<close> the stored verification token
  is the \<^verbatim>\<open>resetToken\<close> property, whatever value \<open>r\<close> the service returned, and that
  stored token is the first argument of the \<^verbatim>\<open>resetPassword\<close> request issued once the
  user has entered a new password \<open>p\<close> twice.
\<close>

theorem stored_token_is_resetToken:
  "verifyOTP resetToken (otp s) = Resolved r \<Longrightarrow>
   s1 = fst (handleVerifyOTP verifyOTP resetToken s) \<Longrightarrow>
   verificationToken s1 = Some resetToken \<and>
   requests (snd (handlePasswordReset resetPassword (s1\<lparr>newPassword := p, confirmPassword := p\<rparr>))) =
     [ResetPassword (Some resetToken) p]"
  by (simp add: handleVerifyOTP_resolved handlePasswordReset_match)

theorem stored_token_is_resetToken_witness:
  "accepting ''server-token'' ''reset-token'' (otp (initial\<lparr>otp := ''123456''\<rparr>)) =
     Resolved ''server-token'' \<and>
   verificationToken (fst (handleVerifyOTP (accepting ''server-token'') ''reset-token''
      (initial\<lparr>otp := ''123456''\<rparr>))) = Some ''reset-token'' \<and>
   requests (snd (handlePasswordReset (accepting ())
      ((fst (handleVerifyOTP (accepting ''server-token'') ''reset-token''
          (initial\<lparr>otp := ''123456''\<rparr>)))
         \<lparr>newPassword := ''Abcdef1!'', confirmPassword := ''Abcdef1!''\<rparr>))) =
     [ResetPassword (Some ''reset-token'') ''Abcdef1!'']"
  using stored_token_is_resetToken [of "accepting ''server-token''" "''reset-token''"
      "initial\<lparr>otp := ''123456''\<rparr>" "''server-token''" _ "accepting ()" "''Abcdef1!''", OF _ refl]
  by (simp add: accepting_def)

section \<open>The password policy\<close>

text \<open>
  Claim C2: for every password \<open>p\<close> the validator reports \<open>p\<close> valid if and only if \<open>p\<close>
  has at least 8 characters, a lowercase letter a-z, an uppercase letter A-Z, a digit
  0-9 and a character of the fixed special-character set; and the checklist exposes one
  boolean per rule, each a function of \<open>p\<close> alone, the verdict being their conjunction.
\<close>

theorem validate_iff_all_rules:
  "valid (validate p) =
     (8 \<le> length p \<and>
      set p \<inter> set ''abcdefghijklmnopqrstuvwxyz'' \<noteq> {} \<and>
      set p \<inter> set ''ABCDEFGHIJKLMNOPQRSTUVWXYZ'' \<noteq> {} \<and>
      set p \<inter> set ''0123456789'' \<noteq> {} \<and>
      set p \<inter> set specialCharacters \<noteq> {}) \<and>
   requirements p =
     [8 \<le> length p,
      set p \<inter> set ''abcdefghijklmnopqrstuvwxyz'' \<noteq> {},
      set p \<inter> set ''ABCDEFGHIJKLMNOPQRSTUVWXYZ'' \<noteq> {},
      set p \<inter> set ''0123456789'' \<noteq> {},
      set p \<inter> set specialCharacters \<noteq> {}] \<and>
   valid (validate p) = list_all (\<lambda>b. b) (requirements p)"
proof -
  note req = requirements_sets [of p]
  note val = valid_sets [of p]
  have "valid (validate p) = list_all (\<lambda>b. b) (requirements p)"
    by (simp only: req val list.pred_inject simp_thms)
  with req val show ?thesis
    by (intro conjI)
qed

theorem validate_iff_all_rules_witness:
  "valid (validate ''longenough1A!'') \<and>
   requirements ''longenough1A!'' = [True, True, True, True, True]"
  using validate_iff_all_rules [of "''longenough1A!''"] by (simp add: longenough)

section \<open>Local checks of the change-password flow\<close>

text \<open>
  Claim C3 as stated fails: with the current and the new password equal and the
  confirmation different, no request is made but the error reported is the mismatch,
  not the one about an unchanged password.
\<close>

theorem same_password_other_error:
  "currentPassword (passwordData (enteredPasswords ''Abcdef1!'' ''Abcdef1!'' ''Abcdef1?'')) =
     passwordData.newPassword (passwordData (enteredPasswords ''Abcdef1!'' ''Abcdef1!'' ''Abcdef1?'')) \<and>
   passwordError (fst (handlePasswordUpdate validatePassword (accepting ())
      (enteredPasswords ''Abcdef1!'' ''Abcdef1!'' ''Abcdef1?''))) = ''New passwords do not match'' \<and>
   passwordError (fst (handlePasswordUpdate validatePassword (accepting ())
      (enteredPasswords ''Abcdef1!'' ''Abcdef1!'' ''Abcdef1?''))) \<noteq>
     ''New password must be different from current password'' \<and>
   passwordError (fst (handlePasswordUpdate validatePassword (accepting ())
      (enteredPasswords '''' '''' ''''))) = ''Current password is required''"
  by (simp add: handlePasswordUpdate_def enteredPasswords_def valid_example)

text \<open>
  Claim C3, amended: whenever the current and the new password are equal,
  \<^verbatim>\<open>handlePasswordUpdate\<close> makes no request; the error it reports is the one of the first
  check that fails, in the order of the code: the current password is missing, the
  validator rejects the new password, the confirmation differs, and only then ``New
  password must be different from current password''.
\<close>

theorem same_password_no_request:
  "currentPassword (passwordData s) = passwordData.newPassword (passwordData s) \<Longrightarrow>
   requests (snd (handlePasswordUpdate validatePassword' changePassword s)) = [] \<and>
   passwordError (fst (handlePasswordUpdate validatePassword' changePassword s)) =
     (if currentPassword (passwordData s) = [] then ''Current password is required''
      else if \<not> isValid (validatePassword' (passwordData.newPassword (passwordData s)))
        then validation.message (validatePassword' (passwordData.newPassword (passwordData s)))
      else if passwordData.newPassword (passwordData s) \<noteq>
          passwordData.confirmPassword (passwordData s)
        then ''New passwords do not match''
      else ''New password must be different from current password'')"
  by (simp add: handlePasswordUpdate_def Let_def requests_Nil)

theorem same_password_no_request_witness:
  "currentPassword (passwordData (enteredPasswords ''Abcdef1!'' ''Abcdef1!'' ''Abcdef1!'')) =
     passwordData.newPassword (passwordData (enteredPasswords ''Abcdef1!'' ''Abcdef1!'' ''Abcdef1!'')) \<and>
   requests (snd (handlePasswordUpdate validatePassword (accepting ())
      (enteredPasswords ''Abcdef1!'' ''Abcdef1!'' ''Abcdef1!''))) = [] \<and>
   passwordError (fst (handlePasswordUpdate validatePassword (accepting ())
      (enteredPasswords ''Abcdef1!'' ''Abcdef1!'' ''Abcdef1!''))) =
     ''New password must be different from current password''"
  using same_password_no_request [of "enteredPasswords ''Abcdef1!'' ''Abcdef1!'' ''Abcdef1!''"
      validatePassword "accepting ()"]
  by (simp add: enteredPasswords_def valid_example)

section \<open>Mismatch in the reset flow\<close>

text \<open>
  Claim C4: for every two strings \<open>newPassword\<close> and \<open>confirmPassword\<close> that differ,
  \<^verbatim>\<open>handlePasswordReset\<close> fails locally with the error ``Passwords do not match'' and
  issues no \<^verbatim>\<open>resetPassword\<close> request (it has no effect at all outside the component).
\<close>

theorem mismatch_fails_locally:
  "newPassword s \<noteq> confirmPassword s \<Longrightarrow>
   error (fst (handlePasswordReset resetPassword s)) = Some ''Passwords do not match'' \<and>
   requests (snd (handlePasswordReset resetPassword s)) = [] \<and>
   snd (handlePasswordReset resetPassword s) = []"
  by (simp add: handlePasswordReset_mismatch requests_Nil)

theorem mismatch_fails_locally_witness:
  "newPassword mismatched \<noteq> confirmPassword mismatched \<and>
   error (fst (handlePasswordReset (accepting ()) mismatched)) = Some ''Passwords do not match'' \<and>
   requests (snd (handlePasswordReset (accepting ()) mismatched)) = []"
  using mismatch_fails_locally [of mismatched "accepting ()"]
  by (simp add: mismatched_def requests_Nil)

section \<open>Remote failure of the change-password flow\<close>

text \<open>
  When the request is rejected with an error value (any value other than \<^verbatim>\<open>null\<close> and
  undefined, as the error of a server-reported failure is), the \<^verbatim>\<open>catch\<close> block of
  \<^verbatim>\<open>handlePasswordUpdate\<close> runs to its end and the three fields are empty afterwards.
\<close>

lemma error_value_rejection_clears_fields:
  "Request (ChangePassword cur new) \<in>
     set (snd (handlePasswordUpdate validatePassword' changePassword s)) \<Longrightarrow>
   changePassword cur new = Rejected (ErrorValue err) \<Longrightarrow>
   passwordData (fst (handlePasswordUpdate validatePassword' changePassword s)) =
     \<lparr>currentPassword = '''', newPassword = '''', confirmPassword = ''''\<rparr>"
  by (auto simp add: handlePasswordUpdate_def Let_def clearedPasswordData_def
      split: if_splits outcome.splits rejection.splits)

lemma wrong_current_password_clears_fields:
  "handlePasswordUpdate validatePassword
     (rejecting (ErrorValue wrongCurrent) :: string \<Rightarrow> string \<Rightarrow> unit outcome)
     (enteredPasswords ''Old-pass1'' ''Abcdef1!'' ''Abcdef1!'') =
   (\<lparr>passwordData = \<lparr>currentPassword = '''', newPassword = '''', confirmPassword = ''''\<rparr>,
      passwordError = ''Current password is incorrect'', passwordSuccess = '''',
      isUpdatingPassword = False\<rparr>,
    [Request (ChangePassword ''Old-pass1'' ''Abcdef1!'')])"
  by (simp add: handlePasswordUpdate_def enteredPasswords_def valid_example rejecting_def
      wrongCurrent_def or_else_def clearedPasswordData_def)


section \<open>Local failures leave the inputs alone\<close>

text \<open>
  Claim C6: every local validation failure of either flow (the mismatch in
  \<^verbatim>\<open>handlePasswordReset\<close>; a missing current password, a policy violation, a mismatch or
  an unchanged password in \<^verbatim>\<open>handlePasswordUpdate\<close>) makes the handler return before any
  request, with no effect outside the component, and leaves the entered input fields
  as they were.
\<close>

theorem local_failure_keeps_inputs:
  "(newPassword s \<noteq> confirmPassword s \<longrightarrow>
      snd (handlePasswordReset resetPassword s) = [] \<and>
      otp (fst (handlePasswordReset resetPassword s)) = otp s \<and>
      newPassword (fst (handlePasswordReset resetPassword s)) = newPassword s \<and>
      confirmPassword (fst (handlePasswordReset resetPassword s)) = confirmPassword s) \<and>
   (currentPassword (passwordData t) = [] \<or>
    \<not> isValid (validatePassword' (passwordData.newPassword (passwordData t))) \<or>
    passwordData.newPassword (passwordData t) \<noteq> passwordData.confirmPassword (passwordData t) \<or>
    currentPassword (passwordData t) = passwordData.newPassword (passwordData t) \<longrightarrow>
      snd (handlePasswordUpdate validatePassword' changePassword t) = [] \<and>
      passwordData (fst (handlePasswordUpdate validatePassword' changePassword t)) = passwordData t)"
  using handlePasswordUpdate_local [of t validatePassword' changePassword]
  by (simp add: handlePasswordReset_mismatch)

theorem local_failure_keeps_inputs_witness:
  "newPassword mismatched \<noteq> confirmPassword mismatched \<and>
   snd (handlePasswordReset (accepting ()) mismatched) = [] \<and>
   otp (fst (handlePasswordReset (accepting ()) mismatched)) = ''123456'' \<and>
   newPassword (fst (handlePasswordReset (accepting ()) mismatched)) = ''Abcdef1!'' \<and>
   confirmPassword (fst (handlePasswordReset (accepting ()) mismatched)) = ''Abcdef1?'' \<and>
   \<not> isValid (validatePassword
       (passwordData.newPassword (passwordData (enteredPasswords ''Old-pass1'' ''abc'' ''abc'')))) \<and>
   snd (handlePasswordUpdate validatePassword (accepting ())
     (enteredPasswords ''Old-pass1'' ''abc'' ''abc'')) = [] \<and>
   passwordData (fst (handlePasswordUpdate validatePassword (accepting ())
     (enteredPasswords ''Old-pass1'' ''abc'' ''abc''))) =
     \<lparr>currentPassword = ''Old-pass1'', newPassword = ''abc'', confirmPassword = ''abc''\<rparr>"
  using local_failure_keeps_inputs [of mismatched "accepting ()"
      "enteredPasswords ''Old-pass1'' ''abc'' ''abc''" validatePassword "accepting ()"]
  by (simp add: enteredPasswords_def invalid_example mismatched_def verified_def initial_def)

section \<open>One request at a time\<close>

text \<open>Every event keeps \<open>single_flight\<close>, so it holds along every run that starts with it.\<close>

lemma single_flight_fire: "single_flight \<sigma> \<Longrightarrow> single_flight (fire resetToken e \<sigma>)"
proof (cases e)
  case Submit
  assume "single_flight \<sigma>"
  with Submit show ?thesis
    by (auto simp add: single_flight_def render_def handleVerifyOTP_start_def
        handlePasswordReset_start_def)
next
  case (Settle i res)
  assume inv: "single_flight \<sigma>"
  show ?thesis
  proof (cases "i < length (inflight \<sigma>)")
    case False
    with inv Settle show ?thesis by simp
  next
    case True
    with inv obtain c where c: "inflight \<sigma> = [c]" and i: "i = 0"
      by (cases "inflight \<sigma>") (auto simp add: single_flight_def)
    with inv Settle show ?thesis
      by (cases c; cases res)
        (simp_all add: single_flight_def handleVerifyOTP_settle_def handlePasswordReset_settle_def
          split: rejection.split)
  qed
qed (simp_all add: single_flight_def)

lemma single_flight_run: "single_flight \<sigma> \<Longrightarrow> single_flight (run resetToken evs \<sigma>)"
  unfolding run_def
  by (induction evs arbitrary: \<sigma>) (simp_all add: single_flight_fire)

lemma single_flight_boot: "single_flight boot"
  by (simp add: single_flight_def boot_def initial_def)

lemma run_doubleSubmit:
  "run ''reset-token'' doubleSubmit boot =
     \<lparr>cells = initial\<lparr>otp := ''123456'', isSubmitting := True\<rparr>,
      inflight = [VerifyOTP ''reset-token'' ''123456''],
      effects = [Request (VerifyOTP ''reset-token'' ''123456'')]\<rparr>"
  by (simp add: run_def doubleSubmit_def boot_def initial_def render_def
      handleVerifyOTP_start_def)

text \<open>
  Claim C7: in every state \<open>\<sigma>\<close> a mounted component reaches from its first render, at most
  one request is in flight; and while one is, the \<^verbatim>\<open>isSubmitting\<close> flag is set, the
  submit button of the mounted form is disabled, and a further submission is ignored:
  it changes nothing and issues no request.
\<close>

theorem one_request_in_flight:
  "\<sigma> = run resetToken evs boot \<Longrightarrow>
   length (inflight \<sigma>) \<le> 1 \<and>
   (inflight \<sigma> \<noteq> [] \<longrightarrow>
      isSubmitting (cells \<sigma>) \<and> submitDisabled (render (cells \<sigma>)) \<and>
      fire resetToken Submit \<sigma> = \<sigma>)"
proof -
  assume "\<sigma> = run resetToken evs boot"
  then have "single_flight \<sigma>"
    by (simp add: single_flight_run single_flight_boot)
  then show ?thesis
    by (simp add: single_flight_def render_def)
qed

theorem one_request_in_flight_witness:
  "inflight (run ''reset-token'' doubleSubmit boot) = [VerifyOTP ''reset-token'' ''123456''] \<and>
   length (inflight (run ''reset-token'' doubleSubmit boot)) \<le> 1 \<and>
   isSubmitting (cells (run ''reset-token'' doubleSubmit boot)) \<and>
   submitDisabled (render (cells (run ''reset-token'' doubleSubmit boot))) \<and>
   fire ''reset-token'' (Submit :: unit event) (run ''reset-token'' doubleSubmit boot) =
     run ''reset-token'' doubleSubmit boot"
  using one_request_in_flight [of "run ''reset-token'' doubleSubmit boot" "''reset-token''"
      doubleSubmit, OF refl]
  by (simp add: run_doubleSubmit)

section \<open>Cleared fields\<close>

text \<open>
  Claim C8 as stated fails for the reset flow: after a successful \<^verbatim>\<open>handlePasswordReset\<close>
  the two password cells still hold the password, and after a successful
  \<^verbatim>\<open>handleVerifyOTP\<close> the \<^verbatim>\<open>otp\<close> cell still holds the code.
\<close>

theorem reset_flow_keeps_fields:
  "message (fst (handlePasswordReset (accepting ()) matched)) =
     Some ''Password reset successfully! You can now login with your new password.'' \<and>
   newPassword (fst (handlePasswordReset (accepting ()) matched)) = ''Abcdef1!'' \<and>
   confirmPassword (fst (handlePasswordReset (accepting ()) matched)) = ''Abcdef1!'' \<and>
   verificationToken (fst (handleVerifyOTP (accepting ''verified'') ''reset-token''
      (initial\<lparr>otp := ''123456''\<rparr>))) = Some ''reset-token'' \<and>
   otp (fst (handleVerifyOTP (accepting ''verified'') ''reset-token''
      (initial\<lparr>otp := ''123456''\<rparr>))) = ''123456''"
  by (simp add: handlePasswordReset_def handlePasswordReset_start_def handlePasswordReset_settle_def
      handleVerifyOTP_def handleVerifyOTP_start_def handleVerifyOTP_settle_def
      accepting_def matched_def verified_def initial_def)

text \<open>
  Claim C8, amended: in the change-password flow the three password fields are cleared
  once the \<^verbatim>\<open>changePassword\<close> request has been made and is fulfilled, or is rejected with
  an error value (any value other than \<^verbatim>\<open>null\<close> and undefined); in the reset flow neither
  handler clears a field: \<^verbatim>\<open>otp\<close>, \<^verbatim>\<open>newPassword\<close> and \<^verbatim>\<open>confirmPassword\<close> keep their
  values on success and on every failure.
\<close>

theorem fields_cleared_in_change_flow_only:
  "(Request (ChangePassword cur new) \<in>
      set (snd (handlePasswordUpdate validatePassword' changePassword t)) \<longrightarrow>
    changePassword cur new \<noteq> Rejected Nullish \<longrightarrow>
      passwordData (fst (handlePasswordUpdate validatePassword' changePassword t)) =
        \<lparr>currentPassword = '''', newPassword = '''', confirmPassword = ''''\<rparr>) \<and>
   otp (fst (handleVerifyOTP verifyOTP resetToken s)) = otp s \<and>
   newPassword (fst (handleVerifyOTP verifyOTP resetToken s)) = newPassword s \<and>
   confirmPassword (fst (handleVerifyOTP verifyOTP resetToken s)) = confirmPassword s \<and>
   otp (fst (handlePasswordReset resetPassword s)) = otp s \<and>
   newPassword (fst (handlePasswordReset resetPassword s)) = newPassword s \<and>
   confirmPassword (fst (handlePasswordReset resetPassword s)) = confirmPassword s"
proof -
  have "passwordData (fst (handlePasswordUpdate validatePassword' changePassword t)) =
          \<lparr>currentPassword = '''', newPassword = '''', confirmPassword = ''''\<rparr>"
    if "Request (ChangePassword cur new) \<in>
          set (snd (handlePasswordUpdate validatePassword' changePassword t))"
      and "changePassword cur new \<noteq> Rejected Nullish"
    using handlePasswordUpdate_settled [OF that] by (simp add: clearedPasswordData_def)
  with handleVerifyOTP_inputs [of verifyOTP resetToken s]
    handlePasswordReset_inputs [of resetPassword s]
  show ?thesis by simp
qed

theorem fields_cleared_in_change_flow_only_witness:
  "Request (ChangePassword ''Old-pass1'' ''Abcdef1!'') \<in>
     set (snd (handlePasswordUpdate validatePassword (accepting ())
       (enteredPasswords ''Old-pass1'' ''Abcdef1!'' ''Abcdef1!''))) \<and>
   (accepting () ''Old-pass1'' ''Abcdef1!'' :: unit outcome) \<noteq> Rejected Nullish \<and>
   passwordData (fst (handlePasswordUpdate validatePassword (accepting ())
      (enteredPasswords ''Old-pass1'' ''Abcdef1!'' ''Abcdef1!''))) =
     \<lparr>currentPassword = '''', newPassword = '''', confirmPassword = ''''\<rparr>"
proof -
  have issued: "Request (ChangePassword ''Old-pass1'' ''Abcdef1!'') \<in>
     set (snd (handlePasswordUpdate validatePassword (accepting ())
       (enteredPasswords ''Old-pass1'' ''Abcdef1!'' ''Abcdef1!'')))"
    by (simp add: handlePasswordUpdate_def enteredPasswords_def valid_example accepting_def)
  have fulfilled: "(accepting () ''Old-pass1'' ''Abcdef1!'' :: unit outcome) \<noteq> Rejected Nullish"
    by (simp add: accepting_def)
  from issued fulfilled
    fields_cleared_in_change_flow_only [of "''Old-pass1''" "''Abcdef1!''" validatePassword
      "accepting ()" "enteredPasswords ''Old-pass1'' ''Abcdef1!'' ''Abcdef1!''"
      "accepting ()" "''reset-token''" verified "accepting ()"]
  show ?thesis by simp
qed

section \<open>The back action\<close>










section \<open>No policy check in the reset flow\<close>

text \<open>
  Claim C10: \<^verbatim>\<open>handlePasswordReset\<close> never consults the password rules: for every state
  whose two password entries are equal, whatever the password, the \<^verbatim>\<open>resetPassword\<close>
  request is issued with the stored token and that password; the comparison of the two
  entries is the only check.
\<close>

theorem reset_skips_policy:
  "newPassword s = confirmPassword s \<Longrightarrow>
   requests (snd (handlePasswordReset resetPassword s)) =
     [ResetPassword (verificationToken s) (newPassword s)]"
  by (simp add: handlePasswordReset_def handlePasswordReset_start_def
      handlePasswordReset_settle_def requests_Cons requests_Nil
      split: outcome.split rejection.split)

theorem reset_skips_policy_witness:
  "requirements (newPassword weak) = [False, True, False, False, False] \<and>
   newPassword weak = confirmPassword weak \<and>
   requests (snd (handlePasswordReset (accepting ()) weak)) =
     [ResetPassword (Some ''reset-token'') ''a'']"
  using reset_skips_policy [of weak "accepting ()"]
  by (simp add: weak_def verified_def requirements_a)

end
